theory Spec2Isabelle
  imports Complex_Main
begin

section \<open>Errors and documents\<close>

text \<open>
  The program is the Python module whose classes are \<open>ImageProcessor\<close>, \<open>InstagramAPI\<close>,
  \<open>RAGChain\<close> and \<open>SocialMediaConverter\<close>. An exception is a value of type \<open>error\<close>;
  a call that may raise returns \<open>error + 'a\<close> with \<open>Inl\<close> for the exception.
  \<open>ValueError\<close> is raised by the module itself (the two \<open>raise\<close> statements of
  \<open>SocialMediaConverter.__init__\<close>), \<open>AttributeError\<close> by \<open>image.format.lower()\<close> when
  \<open>image.format\<close> is \<open>None\<close>, \<open>KeyError\<close> by \<open>str.format\<close> on a variable that was not
  supplied, and \<open>External\<close> stands for any exception that comes out of a library or
  network call (its argument identifies it). Output written with \<open>print\<close> is not part of
  the model.
\<close>

datatype error =
    ValueError string
  | AttributeError string
  | KeyError string
  | External string

record document =
  page_content :: string
  metadata :: "(string \<times> string) list"

section \<open>Configuration objects handed to the libraries\<close>

text \<open>
  \<open>vectorstore.as_retriever(search_type="similarity", search_kwargs={"k": 5})\<close>,
  \<open>ChatOpenAI(model="gpt-4-0613", temperature=0.7)\<close> and the two prompt template objects
  are records of the arguments the module passes.
\<close>

record 'vs retriever =
  vectorstore :: 'vs
  search_type :: string
  search_k :: nat

record llm_config =
  model :: string
  temperature :: rat

record prompt_template =
  pt_input_variables :: "string list"
  pt_template :: string

record chat_prompt_template =
  cpt_input_variables :: "string list"
  cpt_messages :: "prompt_template list"

text \<open>
  The expression built by \<open>RAGChain._create_rag_chain\<close> is kept as a syntax tree: \<open>Seq a b\<close>
  is \<open>a | b\<close>, \<open>Parallel\<close> is the dictionary of branches, \<open>Lambda\<close> a plain function
  used as a step. Running such a tree is the library's work (\<open>runnable_stream\<close> below).
\<close>

datatype ('vs, 'llm) runnable =
    Retriever "'vs retriever"
  | Lambda "document list \<Rightarrow> string"
  | Passthrough
  | Parallel "(string \<times> ('vs, 'llm) runnable) list"
  | Prompt chat_prompt_template
  | LLM 'llm
  | StrOutputParser
  | Seq "('vs, 'llm) runnable" "('vs, 'llm) runnable"

section \<open>The environment\<close>

text \<open>
  Everything the module calls but does not define is a field of the environment:
  the process environment after \<open>load_dotenv(env_path)\<close>, the directory loader, the text
  splitter, the vector store, the chat model, the execution of a runnable, the HTTP
  download of an image and the operations of the imaging library. A streamed run yields
  the fragments received and, when the run raised, the exception that ended it.
\<close>

record ('vs, 'llm, 'img) world =
  getenv :: "string \<Rightarrow> string \<Rightarrow> string option"
  directory_loader :: "string \<Rightarrow> string \<Rightarrow> error + document list"
  text_splitter :: "nat \<Rightarrow> nat \<Rightarrow> bool \<Rightarrow> document list \<Rightarrow> error + document list"
  chroma_from_documents :: "document list \<Rightarrow> error + 'vs"
  chat_openai :: "llm_config \<Rightarrow> error + 'llm"
  runnable_stream :: "('vs, 'llm) runnable \<Rightarrow> (string \<times> string) list \<Rightarrow> string list \<times> error option"
  fetch_image :: "string \<Rightarrow> error + 'img"
  img_format :: "'img \<Rightarrow> string option"
  img_size :: "'img \<Rightarrow> nat \<times> nat"
  img_split :: "'img \<Rightarrow> 'img list"
  img_thumbnail :: "'img \<Rightarrow> nat \<times> nat \<Rightarrow> error + 'img"
  img_new :: "string \<Rightarrow> nat \<times> nat \<Rightarrow> nat \<times> nat \<times> nat \<Rightarrow> 'img"
  img_paste :: "'img \<Rightarrow> 'img \<Rightarrow> 'img option \<Rightarrow> error + 'img"

section \<open>Python string operations\<close>

text \<open>\<open>str.lower\<close> on ASCII text (format names such as \<open>PNG\<close> and \<open>JPEG\<close>).\<close>

definition lower_char :: "char \<Rightarrow> char" where
  "lower_char c =
     (case map_of (zip ''ABCDEFGHIJKLMNOPQRSTUVWXYZ'' ''abcdefghijklmnopqrstuvwxyz'') c of
        None \<Rightarrow> c
      | Some d \<Rightarrow> d)"

definition lower :: "string \<Rightarrow> string" where
  "lower s = map lower_char s"

text \<open>\<open>sep.join(parts)\<close>: the parts in order, \<open>sep\<close> between neighbours only.\<close>

fun str_join :: "string \<Rightarrow> string list \<Rightarrow> string" where
  "str_join sep [] = []"
| "str_join sep [x] = x"
| "str_join sep (x # y # ys) = x @ sep @ str_join sep (y # ys)"

section \<open>ImageProcessor\<close>

text \<open>
  \<open>resize_image\<close> calls \<open>image.thumbnail(max_size)\<close> and returns the image;
  \<open>convert_to_format\<close> compares the lower-cased format names and, when they differ,
  pastes the image on a new white RGB canvas of the same size, masked by the fourth band
  when the image has more than three bands.
\<close>

definition resize_image :: "('vs, 'llm, 'img) world \<Rightarrow> 'img \<Rightarrow> nat \<times> nat \<Rightarrow> error + 'img" where
  "resize_image w img max_size = img_thumbnail w img max_size"

definition convert_to_format :: "('vs, 'llm, 'img) world \<Rightarrow> 'img \<Rightarrow> string \<Rightarrow> error + 'img" where
  "convert_to_format w img fmt =
     (case img_format w img of
        None \<Rightarrow> Inl (AttributeError ''lower'')
      | Some f \<Rightarrow>
          if lower f \<noteq> lower fmt then
            (let new_image = img_new w ''RGB'' (img_size w img) (255, 255, 255);
                 bands = img_split w img
             in img_paste w new_image img
                  (if length bands > 3 then Some (bands ! 3) else None))
          else Inr img)"

section \<open>InstagramAPI\<close>

text \<open>
  \<open>download_image\<close> wraps the request and \<open>Image.open\<close> in \<open>try\<close>/\<open>except Exception\<close>:
  any exception is printed and \<open>None\<close> is returned.
\<close>

record instagram_api =
  access_token :: string

definition download_image :: "('vs, 'llm, 'img) world \<Rightarrow> string \<Rightarrow> 'img option" where
  "download_image w url = (case fetch_image w url of Inl e \<Rightarrow> None | Inr img \<Rightarrow> Some img)"

section \<open>RAGChain\<close>

record ('vs, 'llm) rag_chain =
  rc_retriever :: "'vs retriever"
  rc_llm :: 'llm
  rc_prompt :: chat_prompt_template
  rc_chain :: "('vs, 'llm) runnable"

definition format_docs :: "document list \<Rightarrow> string" where
  "format_docs docs = str_join ''\<newline>\<newline>'' (map page_content docs)"

definition template_text :: string where
  "template_text = ''You are an expert in social media content creation and platform-specific formatting. Use the following context and given parameters to convert the input post to the target platform format.\<newline>\<newline>Input Post: {input_post}\<newline>Source Platform: {source_platform}\<newline>Target Platform: {target_platform}\<newline>Image Included: {image_included}\<newline>\<newline>Context (Style guides and platform-specific information):\<newline>{context}\<newline>\<newline>Convert the input post to the target platform format, ensuring it adheres to the platform's best practices and limitations. Maintain the core message and adapt any platform-specific features (e.g., hashtags, mentions, character limits). If an image is included, provide suggestions for image placement or formatting.\<newline>\<newline>Converted Post:\<newline>''"

definition prompt_variables :: "string list" where
  "prompt_variables =
     [''context'', ''input_post'', ''source_platform'', ''target_platform'', ''image_included'']"

definition create_prompt :: chat_prompt_template where
  "create_prompt =
     \<lparr>cpt_input_variables = prompt_variables,
      cpt_messages = [\<lparr>pt_input_variables = prompt_variables, pt_template = template_text\<rparr>]\<rparr>"

definition create_rag_chain ::
  "'vs retriever \<Rightarrow> chat_prompt_template \<Rightarrow> 'llm \<Rightarrow> ('vs, 'llm) runnable" where
  "create_rag_chain r p l =
     Seq (Seq (Seq
       (Parallel
          [(''context'', Seq (Retriever r) (Lambda format_docs)),
           (''input_post'', Passthrough),
           (''source_platform'', Passthrough),
           (''target_platform'', Passthrough),
           (''image_included'', Passthrough)])
       (Prompt p)) (LLM l)) StrOutputParser"

definition RAGChain_init ::
  "('vs, 'llm, 'img) world \<Rightarrow> 'vs \<Rightarrow> error + ('vs, 'llm) rag_chain" where
  "RAGChain_init w vs =
     (let r = \<lparr>vectorstore = vs, search_type = ''similarity'', search_k = 5\<rparr>
      in case chat_openai w \<lparr>model = ''gpt-4-0613'', temperature = 7 / 10\<rparr> of
           Inl e \<Rightarrow> Inl e
         | Inr l \<Rightarrow>
             Inr \<lparr>rc_retriever = r, rc_llm = l, rc_prompt = create_prompt,
                  rc_chain = create_rag_chain r create_prompt l\<rparr>)"

text \<open>
  \<open>convert_post\<close> streams the chain on the dictionary of the four request fields, the
  flag already turned into \<open>Yes\<close> or \<open>No\<close>, and joins the fragments with the empty
  separator. An exception raised while the stream is consumed leaves \<open>join\<close>, so no
  partial text is returned.
\<close>

definition chain_input :: "string \<Rightarrow> string \<Rightarrow> string \<Rightarrow> bool \<Rightarrow> (string \<times> string) list" where
  "chain_input input_post source_platform target_platform image_included =
     [(''input_post'', input_post),
      (''source_platform'', source_platform),
      (''target_platform'', target_platform),
      (''image_included'', if image_included then ''Yes'' else ''No'')]"

definition convert_post ::
  "('vs, 'llm, 'img) world \<Rightarrow> ('vs, 'llm) rag_chain \<Rightarrow> string \<Rightarrow> string \<Rightarrow> string \<Rightarrow> bool
     \<Rightarrow> error + string" where
  "convert_post w chain input_post source_platform target_platform image_included =
     (case runnable_stream w (rc_chain chain)
             (chain_input input_post source_platform target_platform image_included) of
        (fragments, Some e) \<Rightarrow> Inl e
      | (fragments, None) \<Rightarrow> Inr (str_join [] fragments))"


section \<open>SocialMediaConverter\<close>

text \<open>
  A history entry is the tuple \<open>(input_post, source, target, converted_post, image_url)\<close>
  that \<open>convert_instagram_post\<close> appends. A post is the dictionary the Graph API returns,
  its values strings.
\<close>

type_synonym conversion_record = "string \<times> string \<times> string \<times> string \<times> string option"

record ('vs, 'llm) converter =
  smc_documents :: "document list"
  smc_splits :: "document list"
  smc_vectorstore :: 'vs
  smc_rag_chain :: "('vs, 'llm) rag_chain"
  conversion_history :: "conversion_record list"
  smc_instagram_api :: instagram_api

definition load_documents :: "('vs, 'llm, 'img) world \<Rightarrow> string \<Rightarrow> error + document list" where
  "load_documents w db_dir = directory_loader w db_dir ''**/*.pdf''"

definition split_documents ::
  "('vs, 'llm, 'img) world \<Rightarrow> document list \<Rightarrow> error + document list" where
  "split_documents w documents = text_splitter w 1000 50 True documents"

definition create_vectorstore :: "('vs, 'llm, 'img) world \<Rightarrow> document list \<Rightarrow> error + 'vs" where
  "create_vectorstore w documents = chroma_from_documents w documents"

text \<open>
  The constructor, statement by statement: load, refuse an empty corpus, split, index,
  build the chain, start with an empty history, then read the access token.
\<close>

definition SocialMediaConverter_init ::
  "('vs, 'llm, 'img) world \<Rightarrow> string \<Rightarrow> string \<Rightarrow> error + ('vs, 'llm) converter" where
  "SocialMediaConverter_init w db_dir env_path =
     (case load_documents w db_dir of
        Inl e \<Rightarrow> Inl e
      | Inr documents \<Rightarrow>
          if documents = [] then Inl (ValueError (''No documents found in '' @ db_dir))
          else
            (case split_documents w documents of
               Inl e \<Rightarrow> Inl e
             | Inr splits \<Rightarrow>
                 (case create_vectorstore w splits of
                    Inl e \<Rightarrow> Inl e
                  | Inr vs \<Rightarrow>
                      (case RAGChain_init w vs of
                         Inl e \<Rightarrow> Inl e
                       | Inr chain \<Rightarrow>
                           (case getenv w env_path ''INSTAGRAM_ACCESS_TOKEN'' of
                              None \<Rightarrow>
                                Inl (ValueError ''INSTAGRAM_ACCESS_TOKEN not found in .env file'')
                            | Some token \<Rightarrow>
                                if token = [] then
                                  Inl (ValueError ''INSTAGRAM_ACCESS_TOKEN not found in .env file'')
                                else
                                  Inr \<lparr>smc_documents = documents, smc_splits = splits,
                                       smc_vectorstore = vs, smc_rag_chain = chain,
                                       conversion_history = [],
                                       smc_instagram_api = \<lparr>access_token = token\<rparr>\<rparr>)))))"

definition process_image :: "('vs, 'llm, 'img) world \<Rightarrow> 'img \<Rightarrow> string \<Rightarrow> error + 'img" where
  "process_image w img target_platform =
     (if target_platform = ''Facebook'' then
        (case resize_image w img (2048, 2048) of
           Inl e \<Rightarrow> Inl e
         | Inr img1 \<Rightarrow> convert_to_format w img1 ''PNG'')
      else if target_platform = ''LinkedIn'' then
        (case resize_image w img (1200, 627) of
           Inl e \<Rightarrow> Inl e
         | Inr img1 \<Rightarrow> convert_to_format w img1 ''PNG'')
      else Inr img)"

text \<open>
  \<open>post.get('caption', '')\<close>, and the first lines of \<open>convert_instagram_post\<close>:
  \<open>original_image\<close> stays \<open>None\<close> unless \<open>media_url\<close> is present and not empty, and is then
  whatever \<open>download_image\<close> returns. An image object is always true in a condition, so
  \<open>bool(original_image)\<close> is \<open>original_image is not None\<close>.
\<close>

definition caption_of :: "(string \<rightharpoonup> string) \<Rightarrow> string" where
  "caption_of post = (case post ''caption'' of None \<Rightarrow> [] | Some s \<Rightarrow> s)"

definition original_image :: "('vs, 'llm, 'img) world \<Rightarrow> (string \<rightharpoonup> string) \<Rightarrow> 'img option" where
  "original_image w post =
     (case post ''media_url'' of
        None \<Rightarrow> None
      | Some image_url \<Rightarrow> if image_url \<noteq> [] then download_image w image_url else None)"

text \<open>
  The method returns its result, or the exception that left it, together with the
  converter as the call leaves it. The append is the last statement before \<open>return\<close>.
\<close>

definition convert_instagram_post ::
  "('vs, 'llm, 'img) world \<Rightarrow> ('vs, 'llm) converter \<Rightarrow> (string \<rightharpoonup> string) \<Rightarrow> string
     \<Rightarrow> (error + string \<times> 'img option) \<times> ('vs, 'llm) converter" where
  "convert_instagram_post w c post target_platform =
     (let input_post = caption_of post;
          image_url = post ''media_url'';
          orig = original_image w post
      in case convert_post w (smc_rag_chain c) input_post ''Instagram'' target_platform
                (orig \<noteq> None) of
           Inl e \<Rightarrow> (Inl e, c)
         | Inr converted_post \<Rightarrow>
             (case (case orig of
                      None \<Rightarrow> Inr None
                    | Some img \<Rightarrow> map_sum id Some (process_image w img target_platform)) of
                Inl e \<Rightarrow> (Inl e, c)
              | Inr processed_image \<Rightarrow>
                  (Inr (converted_post, processed_image),
                   c\<lparr>conversion_history :=
                       conversion_history c @
                         [(input_post, ''Instagram'', target_platform, converted_post,
                           image_url)]\<rparr>)))"

section \<open>Derived notions used by the statements\<close>


text \<open>
  The specification's non-streaming \<open>generate\<close>, in its words: the full response is what
  the fragments add up to when each is put after the text received so far, in the order
  of arrival.
\<close>

definition generate_text :: "string list \<Rightarrow> string" where
  "generate_text fragments = foldl (\<lambda>received fragment. received @ fragment) [] fragments"

text \<open>
  A concrete environment for running the model on explicit inputs. Its one style guide
  sits in the directory \<open>guides\<close>, every other directory is empty; the chain answers
  with \<open>respond\<close> applied to its input; one image address can be fetched; an image is
  represented by the name of its format or mode.
\<close>

definition sample_document :: document where
  "sample_document =
     \<lparr>page_content = ''Use short sentences.'', metadata = [(''source'', ''guides/style.pdf'')]\<rparr>"

definition sample_world ::
  "((string \<times> string) list \<Rightarrow> string list \<times> error option)
     \<Rightarrow> (document list, llm_config, string) world" where
  "sample_world respond =
     \<lparr>getenv = (\<lambda>env_path name. if name = ''INSTAGRAM_ACCESS_TOKEN'' then Some ''token'' else None),
      directory_loader = (\<lambda>db_dir glob. if db_dir = ''guides'' then Inr [sample_document] else Inr []),
      text_splitter = (\<lambda>chunk_size chunk_overlap add_start_index docs. Inr docs),
      chroma_from_documents = (\<lambda>docs. Inr docs),
      chat_openai = (\<lambda>config. Inr config),
      runnable_stream = (\<lambda>chain input. respond input),
      fetch_image =
        (\<lambda>url. if url = ''https://cdn.example/photo.jpg'' then Inr ''JPEG''
              else Inl (External ''ConnectionError'')),
      img_format = (\<lambda>img. if img = ''RGB'' then None else Some img),
      img_size = (\<lambda>img. (640, 480)),
      img_split = (\<lambda>img. [img, img, img]),
      img_thumbnail = (\<lambda>img max_size. Inr img),
      img_new = (\<lambda>mode size colour. mode),
      img_paste = (\<lambda>canvas img mask. Inr canvas)\<rparr>"

definition sample_converter :: "(document list, llm_config) converter" where
  "sample_converter =
     (let r = \<lparr>vectorstore = [sample_document], search_type = ''similarity'', search_k = 5\<rparr>;
          l = \<lparr>model = ''gpt-4-0613'', temperature = 7 / 10\<rparr>
      in \<lparr>smc_documents = [sample_document], smc_splits = [sample_document],
          smc_vectorstore = [sample_document],
          smc_rag_chain =
            \<lparr>rc_retriever = r, rc_llm = l, rc_prompt = create_prompt,
             rc_chain = create_rag_chain r create_prompt l\<rparr>,
          conversion_history = [],
          smc_instagram_api = \<lparr>access_token = ''token''\<rparr>\<rparr>)"

section \<open>How the library runs the chain up to the prompt\<close>













section \<open>Auxiliary lemmas\<close>

lemma str_join_Cons: "str_join sep (x # xs) = x @ concat (map (\<lambda>y. sep @ y) xs)"
  by (induction xs arbitrary: x) simp_all

lemma str_join_empty: "str_join [] xs = concat xs"
  by (cases xs) (simp_all add: str_join_Cons)

lemma foldl_append_acc:
  "foldl (\<lambda>received fragment. received @ fragment) acc xs = acc @ concat xs"
  by (induction xs arbitrary: acc) simp_all

text \<open>On the corpus directory of the sample environment the constructor succeeds.\<close>

lemma sample_construction:
  "SocialMediaConverter_init (sample_world respond) ''guides'' ''.env'' = Inr sample_converter"
  by (simp add: SocialMediaConverter_init_def load_documents_def split_documents_def
      create_vectorstore_def RAGChain_init_def sample_world_def sample_converter_def
      sample_document_def Let_def)









text \<open>The two outcomes of a streamed run, and when an image was fetched.\<close>

lemma convert_post_stream_error:
  "runnable_stream w (rc_chain chain) (chain_input ip sp tp b) = (fragments, Some e)
   \<Longrightarrow> convert_post w chain ip sp tp b = Inl e"
  by (simp add: convert_post_def)

lemma convert_post_stream_done:
  "runnable_stream w (rc_chain chain) (chain_input ip sp tp b) = (fragments, None)
   \<Longrightarrow> convert_post w chain ip sp tp b = Inr (concat fragments)"
  by (simp add: convert_post_def str_join_empty)

lemma original_image_Some_iff:
  "(original_image w post \<noteq> None) =
     (\<exists>u img. post ''media_url'' = Some u \<and> u \<noteq> [] \<and> fetch_image w u = Inr img)"
  by (auto simp: original_image_def download_image_def split: option.splits sum.splits)

lemma sample_history_empty: "conversion_history sample_converter = []"
  by (simp add: sample_converter_def Let_def)

section \<open>Retrieval policy and context string\<close>

text \<open>
  Claim C4. Every chain that \<open>RAGChain.__init__\<close> builds has a retriever over the given
  vector store whose search type is \<open>similarity\<close> and whose \<open>k\<close> is 5, and the
  \<open>context\<close> entry of the chain is that retriever piped into \<open>_format_docs\<close>. The string
  \<open>_format_docs\<close> makes of the retrieved documents is the content of the first, then for
  each later document, in the order received, a blank line (two newline characters)
  and its content: nothing else is added and nothing is left out.
\<close>

theorem retriever_and_context:
  assumes "RAGChain_init w vs = Inr chain"
  shows "search_type (rc_retriever chain) = ''similarity''
    \<and> search_k (rc_retriever chain) = 5
    \<and> vectorstore (rc_retriever chain) = vs
    \<and> (\<exists>others. rc_chain chain =
          Seq (Seq (Seq
            (Parallel ((''context'', Seq (Retriever (rc_retriever chain)) (Lambda format_docs)) # others))
            (Prompt (rc_prompt chain))) (LLM (rc_llm chain))) StrOutputParser)
    \<and> format_docs docs =
        (case docs of
           [] \<Rightarrow> []
         | d # ds \<Rightarrow> page_content d @ concat (map (\<lambda>x. ''\<newline>\<newline>'' @ page_content x) ds))"
proof -
  from assms obtain l where l: "chat_openai w \<lparr>model = ''gpt-4-0613'', temperature = 7 / 10\<rparr> = Inr l"
    and chain: "chain =
      \<lparr>rc_retriever = \<lparr>vectorstore = vs, search_type = ''similarity'', search_k = 5\<rparr>,
       rc_llm = l, rc_prompt = create_prompt,
       rc_chain = create_rag_chain \<lparr>vectorstore = vs, search_type = ''similarity'', search_k = 5\<rparr>
                    create_prompt l\<rparr>"
    by (auto simp: RAGChain_init_def Let_def split: sum.splits)
  have "format_docs docs =
        (case docs of
           [] \<Rightarrow> []
         | d # ds \<Rightarrow> page_content d @ concat (map (\<lambda>x. ''\<newline>\<newline>'' @ page_content x) ds))"
    by (cases docs) (simp_all add: format_docs_def str_join_Cons comp_def)
  then show ?thesis
    unfolding chain by (simp add: create_rag_chain_def)
qed

theorem retriever_and_context_witness:
  "\<exists>chain. RAGChain_init (sample_world (\<lambda>input. ([], None))) [sample_document] = Inr chain
     \<and> search_type (rc_retriever chain) = ''similarity''
     \<and> search_k (rc_retriever chain) = 5
     \<and> format_docs
          [\<lparr>page_content = ''first'', metadata = []\<rparr>, \<lparr>page_content = ''second'', metadata = []\<rparr>,
           \<lparr>page_content = ''third'', metadata = []\<rparr>]
        = ''first\<newline>\<newline>second\<newline>\<newline>third''"
proof -
  obtain chain where h: "RAGChain_init (sample_world (\<lambda>input. ([], None))) [sample_document] = Inr chain"
    by (simp add: RAGChain_init_def sample_world_def Let_def)
  show ?thesis
    using h retriever_and_context [OF h,
        of "[\<lparr>page_content = ''first'', metadata = []\<rparr>, \<lparr>page_content = ''second'', metadata = []\<rparr>,
           \<lparr>page_content = ''third'', metadata = []\<rparr>]"]
    by simp
qed

section \<open>Streaming reconstruction\<close>

text \<open>
  Claim C7. Whatever the streamed run of the chain delivers, \<open>RAGChain.convert_post\<close>
  returns the fragments concatenated in their order of arrival, each exactly once, and
  that text is the one the specification's non-streaming \<open>generate\<close> gives for the same
  sequence of fragments. When the run raises, the exception is the result and the
  fragments received before it are not returned.
\<close>

theorem convert_post_joins_fragments:
  "(case runnable_stream w (rc_chain chain)
           (chain_input input_post source_platform target_platform image_included) of
      (fragments, None) \<Rightarrow>
        convert_post w chain input_post source_platform target_platform image_included
          = Inr (concat fragments)
        \<and> concat fragments = generate_text fragments
    | (fragments, Some e) \<Rightarrow>
        convert_post w chain input_post source_platform target_platform image_included = Inl e)"
  by (simp add: convert_post_def str_join_empty generate_text_def foldl_append_acc
      split: prod.split option.split)

theorem convert_post_joins_fragments_witness:
  "convert_post (sample_world (\<lambda>input. ([''Hel'', ''lo'', [], '' world''], None)))
     (smc_rag_chain sample_converter) ''Hi'' ''Instagram'' ''Facebook'' False
   = Inr ''Hello world''
   \<and> generate_text [''Hel'', ''lo'', [], '' world''] = ''Hello world''
   \<and> convert_post (sample_world (\<lambda>input. ([''Hel'', ''lo''], Some (External ''APIConnectionError''))))
     (smc_rag_chain sample_converter) ''Hi'' ''Instagram'' ''Facebook'' False
   = Inl (External ''APIConnectionError'')"
  using convert_post_joins_fragments [of
      "sample_world (\<lambda>input. ([''Hel'', ''lo'', [], '' world''], None))"
      "smc_rag_chain sample_converter" "''Hi''" "''Instagram''" "''Facebook''" False]
    convert_post_joins_fragments [of
      "sample_world (\<lambda>input. ([''Hel'', ''lo''], Some (External ''APIConnectionError'')))"
      "smc_rag_chain sample_converter" "''Hi''" "''Instagram''" "''Facebook''" False]
  by (simp add: sample_world_def)

section \<open>Construction over an empty corpus\<close>

text \<open>
  Claim C8. When the directory loader finds no document under \<open>db_dir\<close>, the constructor
  raises \<open>ValueError\<close> with the message \<open>No documents found in\<close> followed by the directory.
  It does so whatever the splitter, the vector store, the chat model and the process
  environment would have done: none of them is reached, and no converter exists on which
  a conversion could be called.
\<close>

theorem empty_corpus_fails_construction:
  assumes "directory_loader w db_dir ''**/*.pdf'' = Inr []"
  shows "SocialMediaConverter_init
           (w\<lparr>text_splitter := splitter, chroma_from_documents := index, chat_openai := llm,
              getenv := env\<rparr>) db_dir env_path
         = Inl (ValueError (''No documents found in '' @ db_dir))"
  using assms by (simp add: SocialMediaConverter_init_def load_documents_def)

theorem empty_corpus_fails_construction_witness:
  "SocialMediaConverter_init (sample_world (\<lambda>input. ([], None))) ''empty'' ''.env''
     = Inl (ValueError ''No documents found in empty'')"
proof -
  let ?w = "sample_world (\<lambda>input. ([], None))"
  have h: "directory_loader ?w ''empty'' ''**/*.pdf'' = Inr []"
    by (simp add: sample_world_def)
  have "?w\<lparr>text_splitter := text_splitter ?w, chroma_from_documents := chroma_from_documents ?w,
           chat_openai := chat_openai ?w, getenv := getenv ?w\<rparr> = ?w"
    by simp
  then show ?thesis
    using empty_corpus_fails_construction [OF h, where splitter = "text_splitter ?w"
        and index = "chroma_from_documents ?w" and llm = "chat_openai ?w" and env = "getenv ?w"
        and env_path = "''.env''"]
    by simp
qed

section \<open>Image post-processing\<close>




section \<open>Prompt composition\<close>



section \<open>History of conversions\<close>

text \<open>
  Claim C1. Retrieval, prompt and generation all happen inside the streamed run of the
  chain. When that run raises \<open>e\<close>, \<open>convert_instagram_post\<close> raises the same \<open>e\<close> and the
  converter, its history included, is as it was before the call, whatever fragments had
  arrived. When the run completes and the image processing does not raise, the call
  returns the concatenated text and the history is the old one followed by exactly one
  record \<open>(input_post, Instagram, target_platform, converted_post, image_url)\<close>.
  Conversely, a text that is returned is the text \<open>convert_post\<close> produced and exactly
  that record has been appended, and a call that raises leaves the converter unchanged.
\<close>

theorem convert_instagram_post_history:
  "(runnable_stream w (rc_chain (smc_rag_chain c))
       (chain_input (caption_of post) ''Instagram'' target_platform (original_image w post \<noteq> None))
      = (fragments, Some e)
     \<longrightarrow> convert_instagram_post w c post target_platform = (Inl e, c))
   \<and> (runnable_stream w (rc_chain (smc_rag_chain c))
         (chain_input (caption_of post) ''Instagram'' target_platform (original_image w post \<noteq> None))
        = (fragments, None)
       \<and> (case original_image w post of
            None \<Rightarrow> Inr None
          | Some img \<Rightarrow> map_sum id Some (process_image w img target_platform)) = Inr processed
     \<longrightarrow> convert_instagram_post w c post target_platform =
           (Inr (concat fragments, processed),
            c\<lparr>conversion_history :=
                conversion_history c @
                  [(caption_of post, ''Instagram'', target_platform, concat fragments,
                    post ''media_url'')]\<rparr>))
   \<and> (convert_instagram_post w c post target_platform = (Inr (text, returned), c')
     \<longrightarrow> convert_post w (smc_rag_chain c) (caption_of post) ''Instagram'' target_platform
             (original_image w post \<noteq> None) = Inr text
         \<and> c' = c\<lparr>conversion_history :=
                    conversion_history c @
                      [(caption_of post, ''Instagram'', target_platform, text,
                        post ''media_url'')]\<rparr>)
   \<and> (convert_instagram_post w c post target_platform = (Inl e', c') \<longrightarrow> c' = c)"
proof (intro conjI impI)
  assume "runnable_stream w (rc_chain (smc_rag_chain c))
       (chain_input (caption_of post) ''Instagram'' target_platform (original_image w post \<noteq> None))
      = (fragments, Some e)"
  then show "convert_instagram_post w c post target_platform = (Inl e, c)"
    by (simp add: convert_instagram_post_def Let_def convert_post_stream_error)
next
  assume "runnable_stream w (rc_chain (smc_rag_chain c))
         (chain_input (caption_of post) ''Instagram'' target_platform (original_image w post \<noteq> None))
        = (fragments, None)
       \<and> (case original_image w post of
            None \<Rightarrow> Inr None
          | Some img \<Rightarrow> map_sum id Some (process_image w img target_platform)) = Inr processed"
  then show "convert_instagram_post w c post target_platform =
           (Inr (concat fragments, processed),
            c\<lparr>conversion_history :=
                conversion_history c @
                  [(caption_of post, ''Instagram'', target_platform, concat fragments,
                    post ''media_url'')]\<rparr>)"
    by (simp add: convert_instagram_post_def Let_def convert_post_stream_done)
next
  assume r: "convert_instagram_post w c post target_platform = (Inr (text, returned), c')"
  then show "convert_post w (smc_rag_chain c) (caption_of post) ''Instagram'' target_platform
             (original_image w post \<noteq> None) = Inr text"
    by (auto simp: convert_instagram_post_def Let_def split: sum.splits)
  from r show "c' = c\<lparr>conversion_history :=
                    conversion_history c @
                      [(caption_of post, ''Instagram'', target_platform, text,
                        post ''media_url'')]\<rparr>"
    by (auto simp: convert_instagram_post_def Let_def split: sum.splits)
next
  assume "convert_instagram_post w c post target_platform = (Inl e', c')"
  then show "c' = c"
    by (auto simp: convert_instagram_post_def Let_def split: sum.splits)
qed

theorem convert_instagram_post_history_witness:
  "convert_instagram_post
     (sample_world (\<lambda>input. ([''Hel''], Some (External ''RateLimitError''))))
     sample_converter [''caption'' \<mapsto> ''Hi''] ''Facebook''
   = (Inl (External ''RateLimitError''), sample_converter)
   \<and> convert_instagram_post
     (sample_world (\<lambda>input. ([''Hello'', '' world''], None)))
     sample_converter
     [''caption'' \<mapsto> ''Hi'', ''media_url'' \<mapsto> ''https://cdn.example/photo.jpg''] ''Facebook''
   = (Inr (''Hello world'', Some ''RGB''),
      sample_converter\<lparr>conversion_history :=
        [(''Hi'', ''Instagram'', ''Facebook'', ''Hello world'',
          Some ''https://cdn.example/photo.jpg'')]\<rparr>)"
proof -
  let ?fail = "sample_world (\<lambda>input. ([''Hel''], Some (External ''RateLimitError'')))"
  let ?ok = "sample_world (\<lambda>input. ([''Hello'', '' world''], None))"
  let ?post = "[''caption'' \<mapsto> ''Hi'', ''media_url'' \<mapsto> ''https://cdn.example/photo.jpg'']"
  have f: "runnable_stream ?fail (rc_chain (smc_rag_chain sample_converter))
       (chain_input (caption_of [''caption'' \<mapsto> ''Hi'']) ''Instagram'' ''Facebook''
          (original_image ?fail [''caption'' \<mapsto> ''Hi''] \<noteq> None))
      = ([''Hel''], Some (External ''RateLimitError''))"
    by (simp add: sample_world_def)
  have img: "original_image ?ok ?post = Some ''JPEG''"
    by (simp add: original_image_def download_image_def sample_world_def)
  have proc: "process_image ?ok ''JPEG'' ''Facebook'' = Inr ''RGB''"
    by (simp add: process_image_def resize_image_def convert_to_format_def sample_world_def
        lower_def lower_char_def)
  have s: "runnable_stream ?ok (rc_chain (smc_rag_chain sample_converter))
         (chain_input (caption_of ?post) ''Instagram'' ''Facebook'' (original_image ?ok ?post \<noteq> None))
        = ([''Hello'', '' world''], None)
       \<and> (case original_image ?ok ?post of
            None \<Rightarrow> Inr None
          | Some img \<Rightarrow> map_sum id Some (process_image ?ok img ''Facebook'')) = Inr (Some ''RGB'')"
    by (simp add: img proc) (simp add: sample_world_def)
  have c: "caption_of ?post = ''Hi''" "?post ''media_url'' = Some ''https://cdn.example/photo.jpg''"
    by (simp_all add: caption_of_def)
  show ?thesis
    using convert_instagram_post_history [where w = ?fail and c = sample_converter
        and post = "[''caption'' \<mapsto> ''Hi'']" and target_platform = "''Facebook''"
        and fragments = "[''Hel'']" and e = "External ''RateLimitError''", THEN conjunct1, rule_format, OF f]
      convert_instagram_post_history [where w = ?ok and c = sample_converter
        and post = ?post and target_platform = "''Facebook''"
        and fragments = "[''Hello'', '' world'']" and processed = "Some ''RGB''",
        THEN conjunct2, THEN conjunct1, rule_format, OF s]
    by (simp add: c sample_history_empty)
qed

section \<open>The image flag\<close>

text \<open>
  Claim C10. The flag \<open>image_included\<close> that \<open>convert_instagram_post\<close> passes to the
  conversion is true exactly when the post has a non-empty \<open>media_url\<close> and the download
  of that address returned an image. When the post names an address and the download
  fails, no exception comes from the download: the conversion runs with the flag false,
  no processed image is returned, and the record appended on success still holds the
  address.
\<close>

theorem image_flag_follows_download:
  "convert_instagram_post w c post target_platform =
     (case convert_post w (smc_rag_chain c) (caption_of post) ''Instagram'' target_platform
             (\<exists>u img. post ''media_url'' = Some u \<and> u \<noteq> [] \<and> fetch_image w u = Inr img) of
        Inl e \<Rightarrow> (Inl e, c)
      | Inr text \<Rightarrow>
          (case (case original_image w post of
                   None \<Rightarrow> Inr None
                 | Some img \<Rightarrow> map_sum id Some (process_image w img target_platform)) of
             Inl e \<Rightarrow> (Inl e, c)
           | Inr processed \<Rightarrow>
               (Inr (text, processed),
                c\<lparr>conversion_history :=
                    conversion_history c @
                      [(caption_of post, ''Instagram'', target_platform, text,
                        post ''media_url'')]\<rparr>)))
   \<and> (post ''media_url'' = Some url \<and> url \<noteq> [] \<and> fetch_image w url = Inl failure
      \<longrightarrow> convert_instagram_post w c post target_platform =
            (case convert_post w (smc_rag_chain c) (caption_of post) ''Instagram''
                    target_platform False of
               Inl e \<Rightarrow> (Inl e, c)
             | Inr text \<Rightarrow>
                 (Inr (text, None),
                  c\<lparr>conversion_history :=
                      conversion_history c @
                        [(caption_of post, ''Instagram'', target_platform, text, Some url)]\<rparr>)))"
proof (intro conjI impI)
  show "convert_instagram_post w c post target_platform =
     (case convert_post w (smc_rag_chain c) (caption_of post) ''Instagram'' target_platform
             (\<exists>u img. post ''media_url'' = Some u \<and> u \<noteq> [] \<and> fetch_image w u = Inr img) of
        Inl e \<Rightarrow> (Inl e, c)
      | Inr text \<Rightarrow>
          (case (case original_image w post of
                   None \<Rightarrow> Inr None
                 | Some img \<Rightarrow> map_sum id Some (process_image w img target_platform)) of
             Inl e \<Rightarrow> (Inl e, c)
           | Inr processed \<Rightarrow>
               (Inr (text, processed),
                c\<lparr>conversion_history :=
                    conversion_history c @
                      [(caption_of post, ''Instagram'', target_platform, text,
                        post ''media_url'')]\<rparr>)))"
    unfolding original_image_Some_iff [symmetric]
    by (simp add: convert_instagram_post_def Let_def)
next
  assume a: "post ''media_url'' = Some url \<and> url \<noteq> [] \<and> fetch_image w url = Inl failure"
  then have n: "original_image w post = None"
    by (simp add: original_image_def download_image_def)
  show "convert_instagram_post w c post target_platform =
            (case convert_post w (smc_rag_chain c) (caption_of post) ''Instagram''
                    target_platform False of
               Inl e \<Rightarrow> (Inl e, c)
             | Inr text \<Rightarrow>
                 (Inr (text, None),
                  c\<lparr>conversion_history :=
                      conversion_history c @
                        [(caption_of post, ''Instagram'', target_platform, text, Some url)]\<rparr>))"
    using a by (simp add: convert_instagram_post_def Let_def n split: sum.split)
qed

theorem image_flag_follows_download_witness:
  "convert_instagram_post (sample_world (\<lambda>input. (map snd input, None))) sample_converter
     [''caption'' \<mapsto> ''Hi'', ''media_url'' \<mapsto> ''https://cdn.example/gone.jpg''] ''Thread''
   = (Inr (''HiInstagramThreadNo'', None),
      sample_converter\<lparr>conversion_history :=
        [(''Hi'', ''Instagram'', ''Thread'', ''HiInstagramThreadNo'',
          Some ''https://cdn.example/gone.jpg'')]\<rparr>)"
proof -
  let ?w = "sample_world (\<lambda>input. (map snd input, None))"
  let ?post = "[''caption'' \<mapsto> ''Hi'', ''media_url'' \<mapsto> ''https://cdn.example/gone.jpg'']"
  have a: "?post ''media_url'' = Some ''https://cdn.example/gone.jpg''
      \<and> ''https://cdn.example/gone.jpg'' \<noteq> []
      \<and> fetch_image ?w ''https://cdn.example/gone.jpg'' = Inl (External ''ConnectionError'')"
    by (simp add: sample_world_def)
  have t: "convert_post ?w (smc_rag_chain sample_converter) ''Hi'' ''Instagram'' ''Thread'' False
      = Inr ''HiInstagramThreadNo''"
    by (simp add: convert_post_def chain_input_def sample_world_def)
  have c: "caption_of ?post = ''Hi''"
    by (simp add: caption_of_def)
  show ?thesis
    using image_flag_follows_download [where w = ?w and c = sample_converter and post = ?post
        and target_platform = "''Thread''" and url = "''https://cdn.example/gone.jpg''"
        and failure = "External ''ConnectionError''", THEN conjunct2, rule_format, OF a]
    by (simp add: c t sample_history_empty)
qed

end
